theory Spec2Isabelle
  imports Main
begin

section \<open>Credit card validation: the data model\<close>

text \<open>
  The package \<^verbatim>\<open>creditcard\<close> validates a card record: it infers the card network from
  the leading digits of the number, runs the Luhn checksum, checks the expiry month and
  year and the length of the CVV. Go strings are byte sequences, so they are modelled as
  \<^typ>\<open>string\<close> (a list of 8-bit characters) and \<^verbatim>\<open>len\<close> is \<^const>\<open>length\<close>. Go's
  \<^verbatim>\<open>int\<close> is modelled as \<^typ>\<open>int\<close>: the code only compares and prints the expiry
  fields, and the sums it computes stay below 200, so no operation can wrap around.
\<close>

record Card =
  Type :: string
  Number :: string
  ExpiryMonth :: int
  ExpiryYear :: int
  CVV :: string

text \<open>
  The field \<^verbatim>\<open>Card *Card\<close> of the result points to the caller's card, which
  \<^verbatim>\<open>Validate\<close> may have written to. The model stores the card as it is after the call.
\<close>

record Validation =
  Card :: Card
  ValidCardNumber :: bool
  ValidExpiryMonth :: bool
  ValidExpiryYear :: bool
  ValidCVV :: bool
  IsExpired :: bool
  Errors :: "string list"

datatype cardType =
    Unknown
  | AmericanExpress
  | Aura
  | Bankcard
  | Cabal
  | ChinaUnionPay
  | Dankort
  | DinersClubCarteBlanche
  | DinersClubEnroute
  | DinersClubInternational
  | Discover
  | Elo
  | Hipercard
  | InstaPayment
  | InterPayment
  | JCB
  | Maestro
  | Mastercard
  | Visa
  | VisaElectron

text \<open>The value \<^verbatim>\<open>iota\<close> gives each constant of the enumeration.\<close>

fun iota :: "cardType \<Rightarrow> nat" where
  "iota Unknown = 0"
| "iota AmericanExpress = 1"
| "iota Aura = 2"
| "iota Bankcard = 3"
| "iota Cabal = 4"
| "iota ChinaUnionPay = 5"
| "iota Dankort = 6"
| "iota DinersClubCarteBlanche = 7"
| "iota DinersClubEnroute = 8"
| "iota DinersClubInternational = 9"
| "iota Discover = 10"
| "iota Elo = 11"
| "iota Hipercard = 12"
| "iota InstaPayment = 13"
| "iota InterPayment = 14"
| "iota JCB = 15"
| "iota Maestro = 16"
| "iota Mastercard = 17"
| "iota Visa = 18"
| "iota VisaElectron = 19"

definition cardTypeNames :: "string list" where
  "cardTypeNames =
     [''Unknown Card'',
      ''American Express'',
      ''Aura'',
      ''Bankcard'',
      ''Cabal'',
      ''China UnionPay'',
      ''Dankort'',
      ''Diners Club Carte Blanche'',
      ''Diners Club Enroute'',
      ''Diners Club International'',
      ''Discover'',
      ''Elo'',
      ''Hipercard'',
      ''InstaPayment'',
      ''InterPayment'',
      ''JCB'',
      ''Maestro'',
      ''Mastercard'',
      ''Visa'',
      ''Visa Electron'']"

text \<open>\<^verbatim>\<open>name\<close> indexes the table; every constant of the enumeration is within its 20 entries.\<close>

definition name :: "cardType \<Rightarrow> string" where
  "name ct = cardTypeNames ! iota ct"

text \<open>
  A run-time panic of the Go program is a value of its own. The only one the package
  can raise is the bounds check of a slice expression.
\<close>

datatype panic = SliceBoundsOutOfRange

text \<open>A Go \<^verbatim>\<open>error\<close> built by \<^verbatim>\<open>fmt.Errorf\<close> is its message; \<^verbatim>\<open>nil\<close> is \<^const>\<open>None\<close>.\<close>

type_synonym error = "string option"

section \<open>Library functions the package calls\<close>

subsection \<open>\<^verbatim>\<open>strconv.Atoi\<close>\<close>

text \<open>
  \<^verbatim>\<open>strconv.Atoi\<close> on a string of fewer than 19 bytes, which is all the package passes
  (a prefix of at most 6 bytes, or one converted byte): an optional sign, then decimal
  digits only. On a syntax error it returns 0 together with the error.
\<close>

definition isDigitByte :: "char \<Rightarrow> bool" where
  "isDigitByte ch = (48 \<le> (of_char ch :: nat) \<and> (of_char ch :: nat) \<le> 57)"

definition digitVal :: "char \<Rightarrow> int" where
  "digitVal ch = int (of_char ch) - 48"

fun atoiLoop :: "string \<Rightarrow> int \<Rightarrow> int option" where
  "atoiLoop [] n = Some n"
| "atoiLoop (ch # s) n =
     (if isDigitByte ch then atoiLoop s (n * 10 + digitVal ch) else None)"

datatype NumError = ErrSyntax

definition Atoi :: "string \<Rightarrow> int \<times> NumError option" where
  "Atoi s0 =
     (if s0 = [] then (0, Some ErrSyntax)
      else
        let s = (if hd s0 = CHR ''-'' \<or> hd s0 = CHR ''+'' then tl s0 else s0)
        in if length s < 1 then (0, Some ErrSyntax)
           else (case atoiLoop s 0 of
                   None \<Rightarrow> (0, Some ErrSyntax)
                 | Some n \<Rightarrow> (if hd s0 = CHR ''-'' then - n else n, None)))"

text \<open>
  The conversion \<^verbatim>\<open>string(b)\<close> of a byte yields the UTF-8 encoding of the code point
  \<^verbatim>\<open>b\<close>: one byte below 128, two bytes from 128 on.
\<close>

definition byteToString :: "char \<Rightarrow> string" where
  "byteToString b =
     (let n = (of_char b :: nat)
      in if n < 128 then [b] else [char_of (192 + n div 64), char_of (128 + n mod 64)])"

subsection \<open>\<^verbatim>\<open>fmt.Sprintf\<close> with the verb \<^verbatim>\<open>%d\<close>\<close>

fun digitsNat :: "nat \<Rightarrow> string" where
  "digitsNat n =
     (if n < 10 then [''0123456789'' ! n]
      else digitsNat (n div 10) @ [''0123456789'' ! (n mod 10)])"

definition fmtInt :: "int \<Rightarrow> string" where
  "fmtInt i = (if i < 0 then CHR ''-'' # digitsNat (nat (- i)) else digitsNat (nat i))"

subsection \<open>\<^verbatim>\<open>time.Parse\<close> with the layout \<^verbatim>\<open>2006-01-02\<close>, and \<^verbatim>\<open>Time.Before\<close>\<close>

text \<open>
  An instant is represented by what a UTC clock shows at it: year, month, day and the
  nanoseconds since midnight. Instants are ordered as these readings are, read left to right.
  The zero \<^verbatim>\<open>Time\<close>, which \<^verbatim>\<open>time.Parse\<close> returns with an error, is midnight of
  January 1 of the year 1.
\<close>

record Time =
  tYear :: int
  tMonth :: int
  tDay :: int
  tNanos :: int

definition zeroTime :: Time where
  "zeroTime = \<lparr>tYear = 1, tMonth = 1, tDay = 1, tNanos = 0\<rparr>"

definition Before :: "Time \<Rightarrow> Time \<Rightarrow> bool" where
  "Before t u =
     (tYear t < tYear u \<or>
      (tYear t = tYear u \<and>
       (tMonth t < tMonth u \<or>
        (tMonth t = tMonth u \<and>
         (tDay t < tDay u \<or> (tDay t = tDay u \<and> tNanos t < tNanos u))))))"

definition isDigitAt :: "string \<Rightarrow> nat \<Rightarrow> bool" where
  "isDigitAt s i = (i < length s \<and> isDigitByte (s ! i))"

text \<open>
  \<^verbatim>\<open>getnum\<close> reads one or two digits; with \<^verbatim>\<open>fixed\<close> (the layout elements
  \<^verbatim>\<open>01\<close> and \<^verbatim>\<open>02\<close>) it insists on two.
\<close>

definition getnum :: "string \<Rightarrow> bool \<Rightarrow> (int \<times> string) option" where
  "getnum s fixed =
     (if \<not> isDigitAt s 0 then None
      else if \<not> isDigitAt s 1 then
        (if fixed then None else Some (digitVal (s ! 0), drop 1 s))
      else Some (digitVal (s ! 0) * 10 + digitVal (s ! 1), drop 2 s))"

text \<open>The layout element \<^verbatim>\<open>2006\<close>: four bytes, all of them digits.\<close>

definition getLongYear :: "string \<Rightarrow> (int \<times> string) option" where
  "getLongYear v =
     (if length v < 4 \<or> \<not> isDigitAt v 0 then None
      else (case atoiLoop (take 4 v) 0 of
              None \<Rightarrow> None
            | Some y \<Rightarrow> Some (y, drop 4 v)))"

text \<open>The literal \<^verbatim>\<open>-\<close> of the layout must be the next byte of the value.\<close>

definition skipDash :: "string \<Rightarrow> string option" where
  "skipDash v = (case v of [] \<Rightarrow> None | ch # r \<Rightarrow> if ch = CHR ''-'' then Some r else None)"

definition isLeap :: "int \<Rightarrow> bool" where
  "isLeap y = (y mod 4 = 0 \<and> (y mod 100 \<noteq> 0 \<or> y mod 400 = 0))"

definition daysIn :: "int \<Rightarrow> int \<Rightarrow> int" where
  "daysIn m y =
     (if m = 2 then (if isLeap y then 29 else 28)
      else if m = 4 \<or> m = 6 \<or> m = 9 \<or> m = 11 then 30 else 31)"

text \<open>
  \<^verbatim>\<open>time.Parse("2006-01-02", value)\<close>: \<^const>\<open>None\<close> stands for the returned error (and
  the zero \<^verbatim>\<open>Time\<close> that comes with it). A date that parses is midnight UTC of that day.
\<close>

definition parseDate :: "string \<Rightarrow> Time option" where
  "parseDate v0 =
     (case getLongYear v0 of
        None \<Rightarrow> None
      | Some (y, v1) \<Rightarrow>
     (case skipDash v1 of
        None \<Rightarrow> None
      | Some v2 \<Rightarrow>
     (case getnum v2 True of
        None \<Rightarrow> None
      | Some (m, v3) \<Rightarrow>
          if m \<le> 0 \<or> 12 < m then None
          else
     (case skipDash v3 of
        None \<Rightarrow> None
      | Some v4 \<Rightarrow>
     (case getnum v4 True of
        None \<Rightarrow> None
      | Some (d, v5) \<Rightarrow>
          if v5 \<noteq> [] then None
          else if d < 1 \<or> daysIn m y < d then None
          else Some \<lparr>tYear = y, tMonth = m, tDay = d, tNanos = 0\<rparr>)))))"

section \<open>The card-type classifier\<close>

text \<open>
  The array \<^verbatim>\<open>digits\<close> holds six integers, all zero at first. Entry \<^verbatim>\<open>i\<close> receives
  the value of the first \<^verbatim>\<open>i+1\<close> bytes of the number when the number has that many;
  the error of \<^verbatim>\<open>Atoi\<close> is dropped, so a prefix that does not parse is stored as 0.
\<close>

definition fillDigits :: "string \<Rightarrow> int list" where
  "fillDigits num =
     fold (\<lambda>i ccDigits. if i < length num then ccDigits[i := fst (Atoi (take (i + 1) num))]
                         else ccDigits)
          [0, 1, 2, 3, 4, 5] (replicate 6 0)"

definition at :: "int list \<Rightarrow> nat \<Rightarrow> int" where
  "at d i = d ! (i - 1)"

text \<open>The slice expression \<^verbatim>\<open>s[:n]\<close> panics when \<^verbatim>\<open>n\<close> exceeds the length.\<close>

definition sliceTo :: "string \<Rightarrow> nat \<Rightarrow> panic + string" where
  "sliceTo s n = (if n \<le> length s then Inr (take n s) else Inl SliceBoundsOutOfRange)"

text \<open>
  \<^verbatim>\<open>determineCardType\<close> fills the array and then runs its \<^verbatim>\<open>switch\<close>, which is
  the function \<open>cardTypeSwitch\<close> of the number, its length and the array.
  The \<^verbatim>\<open>switch\<close> takes the first case whose condition holds. The conditions are
  evaluated left to right and \<^verbatim>\<open>||\<close> stops at the first true operand, so the slice
  \<^verbatim>\<open>c.Number[:3]\<close> of the Maestro case is evaluated only when no earlier case matched and
  none of the ten comparisons before it holds. On failure the function returns the card
  type 0, which is \<^const>\<open>Unknown\<close>, with the error.
\<close>

definition cardTypeSwitch :: "string \<Rightarrow> nat \<Rightarrow> int list \<Rightarrow> panic + (cardType \<times> error)" where
  "cardTypeSwitch number ccLen ccDigits =
     (if at ccDigits 4 = 4011 \<or> at ccDigits 6 = 431274 \<or> at ccDigits 6 = 438935 \<or>
         at ccDigits 6 = 451416 \<or> at ccDigits 6 = 457393 \<or> at ccDigits 4 = 4576 \<or>
         at ccDigits 6 = 457631 \<or> at ccDigits 6 = 457632 \<or> at ccDigits 6 = 504175 \<or>
         at ccDigits 6 = 627780 \<or> at ccDigits 6 = 636297 \<or> at ccDigits 6 = 636368 \<or>
         at ccDigits 6 = 636369 \<or> (at ccDigits 6 \<ge> 506699 \<and> at ccDigits 6 \<le> 506778) \<or>
         (at ccDigits 6 \<ge> 509000 \<and> at ccDigits 6 \<le> 509999) \<or>
         (at ccDigits 6 \<ge> 650031 \<and> at ccDigits 6 \<le> 650051) \<or>
         (at ccDigits 6 \<ge> 650035 \<and> at ccDigits 6 \<le> 650033) \<or>
         (at ccDigits 6 \<ge> 650405 \<and> at ccDigits 6 \<le> 650439) \<or>
         (at ccDigits 6 \<ge> 650485 \<and> at ccDigits 6 \<le> 650538) \<or>
         (at ccDigits 6 \<ge> 650541 \<and> at ccDigits 6 \<le> 650598) \<or>
         (at ccDigits 6 \<ge> 650700 \<and> at ccDigits 6 \<le> 650718) \<or>
         (at ccDigits 6 \<ge> 650720 \<and> at ccDigits 6 \<le> 650727) \<or>
         (at ccDigits 6 \<ge> 650901 \<and> at ccDigits 6 \<le> 650920) \<or>
         (at ccDigits 6 \<ge> 651652 \<and> at ccDigits 6 \<le> 651679) \<or>
         (at ccDigits 6 \<ge> 655000 \<and> at ccDigits 6 \<le> 655019) \<or>
         (at ccDigits 6 \<ge> 655021 \<and> at ccDigits 6 \<le> 655021)
      then Inr (Elo, None)
      else if at ccDigits 6 \<ge> 604201 \<and> at ccDigits 6 \<le> 604219
      then Inr (Cabal, None)
      else if at ccDigits 6 = 384100 \<or> at ccDigits 6 = 384140 \<or> at ccDigits 6 = 384160 \<or>
         at ccDigits 6 = 606282 \<or> at ccDigits 6 = 637095 \<or> at ccDigits 4 = 637568 \<or>
         at ccDigits 4 = 637599 \<or> at ccDigits 4 = 637609 \<or> at ccDigits 4 = 637612
      then Inr (Hipercard, None)
      else if at ccDigits 2 = 34 \<or> at ccDigits 2 = 37
      then Inr (AmericanExpress, None)
      else if at ccDigits 4 = 5610 \<or> (at ccDigits 6 \<ge> 560221 \<and> at ccDigits 6 \<le> 560225)
      then Inr (Bankcard, None)
      else if at ccDigits 2 = 62
      then Inr (ChinaUnionPay, None)
      else if at ccDigits 3 \<ge> 300 \<and> at ccDigits 3 \<le> 305 \<and> ccLen = 15
      then Inr (DinersClubCarteBlanche, None)
      else if at ccDigits 4 = 2014 \<or> at ccDigits 4 = 2149
      then Inr (DinersClubEnroute, None)
      else if ((at ccDigits 3 \<ge> 300 \<and> at ccDigits 3 \<le> 305) \<or> at ccDigits 3 = 309 \<or>
         at ccDigits 2 = 36 \<or> at ccDigits 2 = 38 \<or> at ccDigits 2 = 39) \<and> ccLen \<le> 14
      then Inr (DinersClubInternational, None)
      else if at ccDigits 4 = 6011 \<or> (at ccDigits 6 \<ge> 622126 \<and> at ccDigits 6 \<le> 622925) \<or>
         (at ccDigits 3 \<ge> 644 \<and> at ccDigits 3 \<le> 649) \<or> at ccDigits 2 = 65
      then Inr (Discover, None)
      else if at ccDigits 3 = 636 \<and> ccLen \<ge> 16 \<and> ccLen \<le> 19
      then Inr (InterPayment, None)
      else if at ccDigits 3 \<ge> 637 \<and> at ccDigits 3 \<le> 639 \<and> ccLen = 16
      then Inr (InstaPayment, None)
      else if at ccDigits 4 = 5018 \<or> at ccDigits 4 = 5020 \<or> at ccDigits 4 = 5038 \<or>
         at ccDigits 4 = 5612 \<or> at ccDigits 4 = 5893 \<or> at ccDigits 4 = 6304 \<or>
         at ccDigits 4 = 6759 \<or> at ccDigits 4 = 6761 \<or> at ccDigits 4 = 6762 \<or>
         at ccDigits 4 = 6763
      then Inr (Maestro, None)
      else (case sliceTo number 3 of
        Inl p \<Rightarrow> Inl p
      | Inr s \<Rightarrow>
      if s = ''0604'' \<or> at ccDigits 4 = 6390
      then Inr (Maestro, None)
      else if at ccDigits 4 = 5019
      then Inr (Dankort, None)
      else if at ccDigits 2 \<ge> 51 \<and> at ccDigits 2 \<le> 55
      then Inr (Mastercard, None)
      else if at ccDigits 2 = 35
      then Inr (JCB, None)
      else if at ccDigits 2 = 50
      then Inr (Aura, None)
      else if at ccDigits 4 = 4026 \<or> at ccDigits 6 = 417500 \<or> at ccDigits 4 = 4405 \<or>
         at ccDigits 4 = 4508 \<or> at ccDigits 4 = 4844 \<or> at ccDigits 4 = 4913 \<or>
         at ccDigits 4 = 4917
      then Inr (VisaElectron, None)
      else if at ccDigits 1 = 4
      then Inr (Visa, None)
      else Inr (Unknown, Some ''unknown creditcard type'')))"

definition determineCardType :: "Card \<Rightarrow> panic + (cardType \<times> error)" where
  "determineCardType c =
     (let ccLen = length (Number c);
          ccDigits = fillDigits (Number c)
      in cardTypeSwitch (Number c) ccLen ccDigits)"

section \<open>The Luhn checksum\<close>

text \<open>
  The loop of \<^verbatim>\<open>validateLuhn\<close> runs \<^verbatim>\<open>i\<close> from the last index down to 0; here
  \<open>Suc i\<close> bytes are still to be read and the next one is at index \<open>i\<close>. The
  state of the loop is the flag \<^verbatim>\<open>alternate\<close> and the running \<^verbatim>\<open>sum\<close> (here \<open>acc\<close>).
\<close>

fun luhnLoop :: "string \<Rightarrow> nat \<Rightarrow> bool \<Rightarrow> int \<Rightarrow> int" where
  "luhnLoop num 0 alternate acc = acc"
| "luhnLoop num (Suc i) alternate acc =
     (let m = fst (Atoi (byteToString (num ! i)));
          m = (if alternate
               then (let m2 = m * 2 in if m2 > 9 then (m2 mod 10) + 1 else m2)
               else m)
      in luhnLoop num i (\<not> alternate) (acc + m))"

definition validateLuhn :: "Card \<Rightarrow> bool" where
  "validateLuhn c =
     (let numberLen = length (Number c)
      in if numberLen < 13 \<or> numberLen > 19 then False
         else luhnLoop (Number c) numberLen False 0 mod 10 = 0)"

section \<open>The validator\<close>

definition validExpiryMonth :: "Card \<Rightarrow> bool" where
  "validExpiryMonth c = (if ExpiryMonth c < 1 \<or> 12 < ExpiryMonth c then False else True)"

definition validExpiryYear :: "Card \<Rightarrow> bool" where
  "validExpiryYear c = (if ExpiryYear c < 1900 \<or> ExpiryYear c > 2200 then False else True)"

text \<open>
  \<^verbatim>\<open>isExpired\<close> reads the clock; the instant \<^verbatim>\<open>time.Now()\<close> returns is the argument
  \<open>now\<close>. The error of \<^verbatim>\<open>time.Parse\<close> is dropped, so a date that does not parse is
  the zero \<^verbatim>\<open>Time\<close>.
\<close>

definition isExpired :: "Time \<Rightarrow> Card \<Rightarrow> bool" where
  "isExpired now c =
     (if \<not> validExpiryMonth c \<or> \<not> validExpiryYear c then True
      else
        let date = fmtInt (ExpiryYear c) @ ''-'' @ fmtInt (ExpiryMonth c) @ ''-01'';
            parsetime = (case parseDate date of None \<Rightarrow> zeroTime | Some t \<Rightarrow> t)
        in Before parsetime now)"

definition matchCVV :: "Card \<Rightarrow> bool" where
  "matchCVV c =
     (if Type c = ''American Express'' then length (CVV c) = 4 else length (CVV c) = 3)"

definition validCardNumber :: "Card \<Rightarrow> panic + (bool \<times> error)" where
  "validCardNumber c =
     (case determineCardType c of
        Inl p \<Rightarrow> Inl p
      | Inr (ct, err) \<Rightarrow>
          if err \<noteq> None then Inr (False, err)
          else if name ct \<noteq> Type c
          then Inr (False, Some ''given card type doesn't match determined card type'')
          else Inr (validateLuhn c, None))"

text \<open>
  In the two formatted messages the value stands between single quotes, the byte
  \<open>0x27\<close>. \<^verbatim>\<open>Validate\<close> appends to the error list in the order of its checks, writes the name of
  the determined card type into an empty \<^verbatim>\<open>Type\<close>, and returns the result; a panic of
  the classifier ends the call without one.
\<close>

definition appendErr :: "string list \<Rightarrow> error \<Rightarrow> string list" where
  "appendErr errs err = (case err of None \<Rightarrow> errs | Some msg \<Rightarrow> errs @ [msg])"

definition Validate :: "Time \<Rightarrow> Card \<Rightarrow> panic + Validation" where
  "Validate now c =
     (let errs = [];
          vMonth = validExpiryMonth c;
          errs = (if \<not> vMonth
                  then errs @ [''month '' @ CHR 0x27 # fmtInt (ExpiryMonth c) @
                               CHR 0x27 # '' is not a valid month'']
                  else errs);
          vYear = validExpiryYear c;
          errs = (if \<not> vYear
                  then errs @ [''year '' @ CHR 0x27 # fmtInt (ExpiryYear c) @
                               CHR 0x27 # '' is not a valid year'']
                  else errs);
          expired = isExpired now c;
          errs = (if expired then errs @ [''creditcard is expired''] else errs)
      in
      case (if length (Type c) = 0
            then (case determineCardType c of
                    Inl p \<Rightarrow> Inl p
                  | Inr (ct, err) \<Rightarrow> Inr (c\<lparr>Type := name ct\<rparr>, appendErr errs err))
            else Inr (c, errs)) of
        Inl p \<Rightarrow> Inl p
      | Inr (c, errs) \<Rightarrow>
          let vCVV = matchCVV c;
              errs = (if vCVV then errs @ [''cvv doesn't match''] else errs)
          in
          (case validCardNumber c of
             Inl p \<Rightarrow> Inl p
           | Inr (validNumber, err) \<Rightarrow>
               let errs = appendErr errs err;
                   errs = (if validNumber then errs @ [''card number is not valid''] else errs)
               in Inr \<lparr>Card = c,
                       ValidCardNumber = validNumber,
                       ValidExpiryMonth = vMonth,
                       ValidExpiryYear = vYear,
                       ValidCVV = vCVV,
                       IsExpired = expired,
                       Errors = errs\<rparr>))"

text \<open>
  The error list after the three expiry checks, which is what the later steps of
  \<^verbatim>\<open>Validate\<close> append to.
\<close>

definition expiryErrors :: "Time \<Rightarrow> Card \<Rightarrow> string list" where
  "expiryErrors now c =
     (if \<not> validExpiryMonth c
      then [''month '' @ CHR 0x27 # fmtInt (ExpiryMonth c) @ CHR 0x27 # '' is not a valid month'']
      else []) @
     (if \<not> validExpiryYear c
      then [''year '' @ CHR 0x27 # fmtInt (ExpiryYear c) @ CHR 0x27 # '' is not a valid year'']
      else []) @
     (if isExpired now c then [''creditcard is expired''] else [])"

section \<open>What the specification says, in its own words\<close>

text \<open>
  The specification's CVV rule: the required length is 4 for American Express and 3 for
  every other network, the unknown one included.
\<close>

definition requiredCVVLength :: "string \<Rightarrow> nat" where
  "requiredCVVLength network = (if network = ''American Express'' then 4 else 3)"

text \<open>The two messages that carry a value, as the specification writes them.\<close>

definition monthMessage :: "int \<Rightarrow> string" where
  "monthMessage v = ''month '' @ [CHR 0x27] @ fmtInt v @ [CHR 0x27] @ '' is not a valid month''"

definition yearMessage :: "int \<Rightarrow> string" where
  "yearMessage v = ''year '' @ [CHR 0x27] @ fmtInt v @ [CHR 0x27] @ '' is not a valid year''"

text \<open>The first-of-month date built from the card's year and month, at midnight UTC.\<close>

definition firstOfMonth :: "Card \<Rightarrow> Time" where
  "firstOfMonth c = \<lparr>tYear = ExpiryYear c, tMonth = ExpiryMonth c, tDay = 1, tNanos = 0\<rparr>"

text \<open>
  The specification's Luhn check: scanning the digits from the rightmost, every second
  digit, starting with the second from the right, is doubled, and a doubled digit that
  exceeds 9 is replaced by itself modulo 10, plus 1; the number passes when the sum of all
  the resulting digits is a multiple of 10.
\<close>

definition luhnDouble :: "int \<Rightarrow> int" where
  "luhnDouble d = (if 2 * d > 9 then (2 * d) mod 10 + 1 else 2 * d)"

fun luhnSumFromRight :: "int list \<Rightarrow> int" where
  "luhnSumFromRight [] = 0"
| "luhnSumFromRight [d] = d"
| "luhnSumFromRight (d # e # ds) = d + luhnDouble e + luhnSumFromRight ds"

definition luhnSpec :: "string \<Rightarrow> bool" where
  "luhnSpec number = (10 dvd luhnSumFromRight (rev (map digitVal number)))"

text \<open>
  The sum with the doubling switched by a flag, as the loop of the code computes it; it
  links the loop to \<^const>\<open>luhnSumFromRight\<close>.
\<close>

fun luhnSumAlt :: "bool \<Rightarrow> int list \<Rightarrow> int" where
  "luhnSumAlt alternate [] = 0"
| "luhnSumAlt alternate (d # ds) =
     (if alternate then luhnDouble d else d) + luhnSumAlt (\<not> alternate) ds"

declare digitsNat.simps [simp del]

section \<open>Properties of the classifier\<close>

text \<open>The six entries of the array after the loop, one by one.\<close>

lemma fillDigits_entries:
  "fillDigits num =
     [if 0 < length num then fst (Atoi (take 1 num)) else 0,
      if 1 < length num then fst (Atoi (take 2 num)) else 0,
      if 2 < length num then fst (Atoi (take 3 num)) else 0,
      if 3 < length num then fst (Atoi (take 4 num)) else 0,
      if 4 < length num then fst (Atoi (take 5 num)) else 0,
      if 5 < length num then fst (Atoi (take 6 num)) else 0]"
  by (simp add: fillDigits_def numeral_eq_Suc)

text \<open>
  C1. The claim: \<^verbatim>\<open>Validate\<close> never panics, whatever the fields of the card hold,
  numbers of fewer than 3 bytes included. The code does panic: on the empty number no
  case before Maestro matches, its ten comparisons of the 4-digit prefix fail, and the
  slice \<^verbatim>\<open>c.Number[:3]\<close> is out of range. This holds for every \<^verbatim>\<open>Type\<close>, expiry
  date and CVV, and so for the zero value \<^verbatim>\<open>Card{}\<close>.
\<close>

theorem Validate_panics_on_empty_number:
  "Validate now \<lparr>Type = t, Number = '''', ExpiryMonth = m, ExpiryYear = y, CVV = v\<rparr>
     = Inl SliceBoundsOutOfRange"
  by (simp add: Validate_def validCardNumber_def determineCardType_def cardTypeSwitch_def
      fillDigits_entries at_def sliceTo_def Let_def)

text \<open>
  C6. The claim: a number that no earlier rule takes and whose first 4 characters are
  \<^verbatim>\<open>0604\<close> is classified as Maestro. The code compares the first 3 bytes with the
  4-byte literal, which never succeeds: such a number falls through to the default case
  and classification fails.
\<close>

theorem determineCardType_0604_not_Maestro:
  "determineCardType
     \<lparr>Type = t, Number = ''0604000000000000'', ExpiryMonth = m, ExpiryYear = y, CVV = v\<rparr>
     = Inr (Unknown, Some ''unknown creditcard type'')"
  by (simp add: determineCardType_def cardTypeSwitch_def fillDigits_entries at_def sliceTo_def
      Let_def Atoi_def isDigitByte_def digitVal_def)

section \<open>Properties of the validator\<close>

text \<open>
  An error of the classifier is always the one of the default case, and comes with the
  card type \<^const>\<open>Unknown\<close>. The proof walks down the chain of cases without looking
  into the conditions.
\<close>

lemma if_Inr_None:
  "((if P then Inr (a, None) else R) = Inr (ct, Some m)) = (\<not> P \<and> R = Inr (ct, Some m))"
  by simp

lemma case_sum_Inr:
  "((case x of Inl p \<Rightarrow> Inl p | Inr s \<Rightarrow> f s) = Inr y) = (\<exists>s. x = Inr s \<and> f s = Inr y)"
  by (cases x) simp_all

lemma cardTypeSwitch_error:
  assumes "cardTypeSwitch number ccLen ccDigits = Inr (ct, Some msg)"
  shows "ct = Unknown \<and> msg = ''unknown creditcard type''"
proof -
  from assms have "(Inr (Unknown, Some ''unknown creditcard type'') :: panic + (cardType \<times> error)) = Inr (ct, Some msg)"
    unfolding cardTypeSwitch_def if_Inr_None case_sum_Inr
    by (elim conjE exE)
  then show ?thesis by simp
qed

lemma determineCardType_error:
  "determineCardType c = Inr (ct, Some msg) \<Longrightarrow> ct = Unknown \<and> msg = ''unknown creditcard type''"
  unfolding determineCardType_def Let_def by (rule cardTypeSwitch_error)

text \<open>The classifier and the Luhn check read the number only.\<close>

lemma determineCardType_Type_update:
  "determineCardType (c\<lparr>Type := t\<rparr>) = determineCardType c"
  unfolding determineCardType_def by simp

lemma validateLuhn_Type_update:
  "validateLuhn (c\<lparr>Type := t\<rparr>) = validateLuhn c"
  unfolding validateLuhn_def by simp

text \<open>
  \<^verbatim>\<open>Validate\<close> in closed form: a panic of the classifier is a panic of the call, and
  otherwise the result is determined by the outcome of the classifier, once for a card
  with an empty \<^verbatim>\<open>Type\<close> and once for a card with a given one.
\<close>

lemma Validate_panic:
  "determineCardType c = Inl p \<Longrightarrow> Validate now c = Inl p"
  unfolding Validate_def validCardNumber_def Let_def
  by simp

lemma Validate_empty_Type:
  assumes "Type c = []" and "determineCardType c = Inr (ct, err)"
  shows "Validate now c =
     Inr \<lparr>Card = c\<lparr>Type := name ct\<rparr>,
          ValidCardNumber = (err = None \<and> validateLuhn c),
          ValidExpiryMonth = validExpiryMonth c,
          ValidExpiryYear = validExpiryYear c,
          ValidCVV = matchCVV (c\<lparr>Type := name ct\<rparr>),
          IsExpired = isExpired now c,
          Errors = expiryErrors now c @
                   (case err of None \<Rightarrow> [] | Some msg \<Rightarrow> [msg]) @
                   (if matchCVV (c\<lparr>Type := name ct\<rparr>) then [''cvv doesn't match''] else []) @
                   (case err of None \<Rightarrow> [] | Some msg \<Rightarrow> [msg]) @
                   (if err = None \<and> validateLuhn c then [''card number is not valid''] else [])\<rparr>"
proof -
  have d: "determineCardType (c\<lparr>Type := name ct\<rparr>) = Inr (ct, err)"
    using assms(2) by (simp add: determineCardType_Type_update)
  have l: "validateLuhn (c\<lparr>Type := name ct\<rparr>) = validateLuhn c"
    by (simp add: validateLuhn_Type_update)
  show ?thesis
    unfolding Validate_def validCardNumber_def Let_def
    using assms d l
    by (cases err) (simp_all add: appendErr_def expiryErrors_def)
qed

lemma Validate_given_Type:
  assumes "Type c \<noteq> []" and "determineCardType c = Inr (ct, err)"
  shows "Validate now c =
     Inr \<lparr>Card = c,
          ValidCardNumber = (err = None \<and> name ct = Type c \<and> validateLuhn c),
          ValidExpiryMonth = validExpiryMonth c,
          ValidExpiryYear = validExpiryYear c,
          ValidCVV = matchCVV c,
          IsExpired = isExpired now c,
          Errors = expiryErrors now c @
                   (if matchCVV c then [''cvv doesn't match''] else []) @
                   (case err of
                      None \<Rightarrow> if name ct \<noteq> Type c
                              then [''given card type doesn't match determined card type'']
                              else []
                    | Some msg \<Rightarrow> [msg]) @
                   (if err = None \<and> name ct = Type c \<and> validateLuhn c
                    then [''card number is not valid''] else [])\<rparr>"
  unfolding Validate_def validCardNumber_def Let_def
  using assms
  by (cases err) (simp_all add: appendErr_def expiryErrors_def)

lemma Validate_cases:
  assumes "Validate now c = Inr v"
  obtains ct err where "determineCardType c = Inr (ct, err)"
proof (cases "determineCardType c")
  case (Inl p)
  with assms show ?thesis by (simp add: Validate_panic)
next
  case (Inr r)
  then show ?thesis using that by (cases r) simp
qed

lemma determineCardType_error_cases:
  "determineCardType c = Inr (ct, err) \<Longrightarrow>
     err = None \<or> (err = Some ''unknown creditcard type'' \<and> ct = Unknown)"
  by (cases err) (auto dest: determineCardType_error)

text \<open>
  The messages of the expiry checks as a set; the two formatted messages differ from each
  other and from every fixed message of the package.
\<close>

lemma set_expiryErrors:
  "set (expiryErrors now c) =
     (if validExpiryMonth c then {} else {monthMessage (ExpiryMonth c)}) \<union>
     (if validExpiryYear c then {} else {yearMessage (ExpiryYear c)}) \<union>
     (if isExpired now c then {''creditcard is expired''} else {})"
  by (simp add: expiryErrors_def monthMessage_def yearMessage_def)

lemma monthMessage_neq [simp]:
  "monthMessage m \<noteq> yearMessage y"
  "monthMessage m \<noteq> ''creditcard is expired''"
  "monthMessage m \<noteq> ''cvv doesn't match''"
  "monthMessage m \<noteq> ''card number is not valid''"
  "monthMessage m \<noteq> ''unknown creditcard type''"
  "monthMessage m \<noteq> ''given card type doesn't match determined card type''"
  by (simp_all add: monthMessage_def yearMessage_def)

lemma yearMessage_neq [simp]:
  "yearMessage y \<noteq> monthMessage m"
  "yearMessage y \<noteq> ''creditcard is expired''"
  "yearMessage y \<noteq> ''cvv doesn't match''"
  "yearMessage y \<noteq> ''card number is not valid''"
  "yearMessage y \<noteq> ''unknown creditcard type''"
  "yearMessage y \<noteq> ''given card type doesn't match determined card type''"
  by (simp_all add: monthMessage_def yearMessage_def)

lemmas monthMessage_neq_sym [simp] = monthMessage_neq [THEN not_sym]
lemmas yearMessage_neq_sym [simp] = yearMessage_neq [THEN not_sym]

text \<open>
  C2, as amended. The claim: the flag \<^verbatim>\<open>ValidCVV\<close> is true exactly when the length of
  the CVV does not equal the required length (4 for the network name American Express
  after the backfill, 3 otherwise). In the code the flag is the result of
  \<^verbatim>\<open>matchCVV\<close>, as the comment on the field says: it is true exactly when the length
  equals the required one. This holds for every call of \<^verbatim>\<open>Validate\<close> that returns.
  The statement is about the flag only; when the message of the CVV check belongs in the
  error list is not part of it.
\<close>

theorem ValidCVV_flag:
  assumes "Validate now c = Inr v"
  shows "ValidCVV v \<longleftrightarrow> length (CVV c) = requiredCVVLength (Type (Card v))"
proof -
  from assms obtain ct err where d: "determineCardType c = Inr (ct, err)"
    by (rule Validate_cases)
  show ?thesis
  proof (cases "Type c = []")
    case True
    from Validate_empty_Type [OF True d, of now] assms show ?thesis
      by (auto simp: matchCVV_def requiredCVVLength_def)
  next
    case False
    from Validate_given_Type [OF False d, of now] assms show ?thesis
      by (auto simp: matchCVV_def requiredCVVLength_def)
  qed
qed

text \<open>
  The claim as stated fails on a Visa card with a CVV of 3 digits: the length equals the
  required length and the flag is true.
\<close>

theorem ValidCVV_true_on_matching_length:
  "Validate \<lparr>tYear = 2020, tMonth = 1, tDay = 1, tNanos = 0\<rparr>
     \<lparr>Type = ''Visa'', Number = ''4111111111111111'', ExpiryMonth = 11, ExpiryYear = 2020,
      CVV = ''123''\<rparr>
   = Inr \<lparr>Card = \<lparr>Type = ''Visa'', Number = ''4111111111111111'', ExpiryMonth = 11,
                   ExpiryYear = 2020, CVV = ''123''\<rparr>,
          ValidCardNumber = True, ValidExpiryMonth = True, ValidExpiryYear = True,
          ValidCVV = True, IsExpired = False,
          Errors = [''cvv doesn't match'', ''card number is not valid'']\<rparr> \<and>
   length ''123'' = requiredCVVLength ''Visa''"
  by code_simp

text \<open>
  An American Express card with a CVV of 4 digits, its network backfilled, for which the
  flag is true, and the Dankort card of the package's README with a CVV of 4 digits, for
  which it is false.
\<close>

theorem ValidCVV_flag_witness:
  "(\<exists>v. Validate \<lparr>tYear = 2020, tMonth = 1, tDay = 1, tNanos = 0\<rparr>
          \<lparr>Type = '''', Number = ''378282246310005'', ExpiryMonth = 11, ExpiryYear = 2020,
           CVV = ''1234''\<rparr> = Inr v \<and>
        Type (Card v) = ''American Express'' \<and> requiredCVVLength (Type (Card v)) = 4 \<and>
        ValidCVV v) \<and>
   (\<exists>v. Validate \<lparr>tYear = 2019, tMonth = 1, tDay = 1, tNanos = 0\<rparr>
          \<lparr>Type = ''Something'', Number = ''5019717010103742'', ExpiryMonth = 11,
           ExpiryYear = 2019, CVV = ''1234''\<rparr> = Inr v \<and>
        Type (Card v) = ''Something'' \<and> requiredCVVLength (Type (Card v)) = 3 \<and>
        \<not> ValidCVV v)"
proof -
  have e1: "Validate \<lparr>tYear = 2020, tMonth = 1, tDay = 1, tNanos = 0\<rparr>
          \<lparr>Type = '''', Number = ''378282246310005'', ExpiryMonth = 11, ExpiryYear = 2020,
           CVV = ''1234''\<rparr>
     = Inr \<lparr>Card = \<lparr>Type = ''American Express'', Number = ''378282246310005'',
                     ExpiryMonth = 11, ExpiryYear = 2020, CVV = ''1234''\<rparr>,
            ValidCardNumber = True, ValidExpiryMonth = True, ValidExpiryYear = True,
            ValidCVV = True, IsExpired = False,
            Errors = [''cvv doesn't match'', ''card number is not valid'']\<rparr>"
    by code_simp
  have e2: "Validate \<lparr>tYear = 2019, tMonth = 1, tDay = 1, tNanos = 0\<rparr>
          \<lparr>Type = ''Something'', Number = ''5019717010103742'', ExpiryMonth = 11,
           ExpiryYear = 2019, CVV = ''1234''\<rparr>
     = Inr \<lparr>Card = \<lparr>Type = ''Something'', Number = ''5019717010103742'', ExpiryMonth = 11,
                     ExpiryYear = 2019, CVV = ''1234''\<rparr>,
            ValidCardNumber = False, ValidExpiryMonth = True, ValidExpiryYear = True,
            ValidCVV = False, IsExpired = False,
            Errors = [''given card type doesn't match determined card type'']\<rparr>"
    by code_simp
  from ValidCVV_flag [OF e1] ValidCVV_flag [OF e2] show ?thesis
    by (simp add: e1 e2 requiredCVVLength_def)
qed

section \<open>The backfill of the network\<close>

text \<open>
  C5, as amended. The claim: for a card with an empty \<^verbatim>\<open>Type\<close>, \<^verbatim>\<open>Validate\<close> runs the
  classifier, and when classification fails it appends the classifier's message and
  leaves the network field empty. The code appends the message and then assigns
  \<^verbatim>\<open>cardType.name()\<close> in either case: on failure the card type is 0, whose name is
  \<^verbatim>\<open>Unknown Card\<close>, and that name is written into the field. So for every card with
  an empty \<^verbatim>\<open>Type\<close> on which the classifier returns, \<^verbatim>\<open>Validate\<close> returns, the field
  holds the name of the returned card type, and on failure the message is in the error
  list and the field holds \<^verbatim>\<open>Unknown Card\<close>.
\<close>

theorem backfill_on_empty_Type:
  assumes "Type c = []" and "determineCardType c = Inr (ct, err)"
  shows "\<exists>v. Validate now c = Inr v \<and> Type (Card v) = name ct \<and>
             (\<forall>msg. err = Some msg \<longrightarrow>
                msg \<in> set (Errors v) \<and> Type (Card v) = ''Unknown Card'')"
proof -
  have "err = Some msg \<Longrightarrow> name ct = ''Unknown Card''" for msg
    using determineCardType_error [of c ct msg] assms(2)
    by (simp add: name_def cardTypeNames_def)
  then show ?thesis
    by (auto simp: Validate_empty_Type [OF assms])
qed

text \<open>
  The claim as stated fails on the number \<^verbatim>\<open>0000000000\<close> of the package's test:
  classification fails and the network field is \<^verbatim>\<open>Unknown Card\<close> afterwards, not empty.
\<close>

theorem backfill_writes_Unknown_Card:
  "determineCardType
     \<lparr>Type = '''', Number = ''0000000000'', ExpiryMonth = 11, ExpiryYear = 2020,
      CVV = ''1234''\<rparr>
   = Inr (Unknown, Some ''unknown creditcard type'') \<and>
   Validate \<lparr>tYear = 2020, tMonth = 1, tDay = 1, tNanos = 0\<rparr>
     \<lparr>Type = '''', Number = ''0000000000'', ExpiryMonth = 11, ExpiryYear = 2020,
      CVV = ''1234''\<rparr>
   = Inr \<lparr>Card = \<lparr>Type = ''Unknown Card'', Number = ''0000000000'', ExpiryMonth = 11,
                   ExpiryYear = 2020, CVV = ''1234''\<rparr>,
          ValidCardNumber = False, ValidExpiryMonth = True, ValidExpiryYear = True,
          ValidCVV = False, IsExpired = False,
          Errors = [''unknown creditcard type'', ''unknown creditcard type'']\<rparr>"
  by code_simp

text \<open>A number that is not classified and one that is, both with an empty \<^verbatim>\<open>Type\<close>.\<close>

theorem backfill_on_empty_Type_witness:
  "(\<exists>v. Validate \<lparr>tYear = 2020, tMonth = 1, tDay = 1, tNanos = 0\<rparr>
          \<lparr>Type = '''', Number = ''0000000000'', ExpiryMonth = 11, ExpiryYear = 2020,
           CVV = ''1234''\<rparr> = Inr v \<and>
        Type (Card v) = ''Unknown Card'' \<and> ''unknown creditcard type'' \<in> set (Errors v)) \<and>
   (\<exists>v. Validate \<lparr>tYear = 2020, tMonth = 1, tDay = 1, tNanos = 0\<rparr>
          \<lparr>Type = '''', Number = ''5019717010103742'', ExpiryMonth = 11, ExpiryYear = 2020,
           CVV = ''1234''\<rparr> = Inr v \<and>
        Type (Card v) = ''Dankort'')"
proof -
  have t: "Type \<lparr>Type = '''', Number = n, ExpiryMonth = 11, ExpiryYear = 2020,
      CVV = ''1234''\<rparr> = []" for n
    by simp
  have d1: "determineCardType
     \<lparr>Type = '''', Number = ''0000000000'', ExpiryMonth = 11, ExpiryYear = 2020,
      CVV = ''1234''\<rparr>
     = Inr (Unknown, Some ''unknown creditcard type'')"
    by code_simp
  have d2: "determineCardType
     \<lparr>Type = '''', Number = ''5019717010103742'', ExpiryMonth = 11, ExpiryYear = 2020,
      CVV = ''1234''\<rparr>
     = Inr (Dankort, None)"
    by code_simp
  have n: "name Dankort = ''Dankort''"
    by code_simp
  from backfill_on_empty_Type [OF t d1, of "\<lparr>tYear = 2020, tMonth = 1, tDay = 1, tNanos = 0\<rparr>"]
       backfill_on_empty_Type [OF t d2, of "\<lparr>tYear = 2020, tMonth = 1, tDay = 1, tNanos = 0\<rparr>"] n
  show ?thesis
    by auto
qed

text \<open>
  C9. For a card whose \<^verbatim>\<open>Type\<close> is empty at first and whose number is classified,
  \<^verbatim>\<open>Validate\<close> returns, the message of a type mismatch is not in the error list, and
  \<^verbatim>\<open>ValidCardNumber\<close> is the result of the Luhn check on the number.
\<close>

theorem no_mismatch_after_backfill:
  assumes "Type c = []" and "determineCardType c = Inr (ct, None)"
  shows "\<exists>v. Validate now c = Inr v \<and>
             ''given card type doesn't match determined card type'' \<notin> set (Errors v) \<and>
             ValidCardNumber v = validateLuhn c"
  by (auto simp: Validate_empty_Type [OF assms] set_expiryErrors)

text \<open>The Dankort number of the package's test, with no \<^verbatim>\<open>Type\<close> given.\<close>

theorem no_mismatch_after_backfill_witness:
  "\<exists>v. Validate \<lparr>tYear = 2020, tMonth = 1, tDay = 1, tNanos = 0\<rparr>
          \<lparr>Type = '''', Number = ''5019717010103742'', ExpiryMonth = 11, ExpiryYear = 2020,
           CVV = ''1234''\<rparr> = Inr v \<and>
       ''given card type doesn't match determined card type'' \<notin> set (Errors v) \<and>
       ValidCardNumber v \<and>
       validateLuhn \<lparr>Type = '''', Number = ''5019717010103742'', ExpiryMonth = 11,
                     ExpiryYear = 2020, CVV = ''1234''\<rparr>"
proof -
  have t: "Type \<lparr>Type = '''', Number = ''5019717010103742'', ExpiryMonth = 11,
                  ExpiryYear = 2020, CVV = ''1234''\<rparr> = []"
    by simp
  have d: "determineCardType
     \<lparr>Type = '''', Number = ''5019717010103742'', ExpiryMonth = 11, ExpiryYear = 2020,
      CVV = ''1234''\<rparr>
     = Inr (Dankort, None)"
    by code_simp
  have l: "validateLuhn \<lparr>Type = '''', Number = ''5019717010103742'', ExpiryMonth = 11,
                     ExpiryYear = 2020, CVV = ''1234''\<rparr>"
    by code_simp
  from no_mismatch_after_backfill
         [OF t d, of "\<lparr>tYear = 2020, tMonth = 1, tDay = 1, tNanos = 0\<rparr>"] l
  show ?thesis
    by auto
qed

section \<open>Flags and messages\<close>

text \<open>
  C8, as amended. The claim: in the result of \<^verbatim>\<open>Validate\<close> the month message is in the
  error list exactly when \<^verbatim>\<open>ValidExpiryMonth\<close> is false, the year message exactly when
  \<^verbatim>\<open>ValidExpiryYear\<close> is false, the expiry message exactly when \<^verbatim>\<open>IsExpired\<close> is
  true, the CVV message exactly when \<^verbatim>\<open>ValidCVV\<close> is true and the card-number message
  exactly when \<^verbatim>\<open>ValidCardNumber\<close> is true, with at most the classifier's own failure
  text in addition. The five equivalences hold in the code; beside the five messages
  and the classifier's text the list can also hold the message of a type mismatch, which
  \<^verbatim>\<open>validCardNumber\<close> returns for a given \<^verbatim>\<open>Type\<close> that differs from the determined
  one. This holds for every call of \<^verbatim>\<open>Validate\<close> that returns.
\<close>

theorem errors_reflect_flags:
  assumes "Validate now c = Inr v"
  shows "(monthMessage (ExpiryMonth c) \<in> set (Errors v) \<longleftrightarrow> \<not> ValidExpiryMonth v) \<and>
         (yearMessage (ExpiryYear c) \<in> set (Errors v) \<longleftrightarrow> \<not> ValidExpiryYear v) \<and>
         (''creditcard is expired'' \<in> set (Errors v) \<longleftrightarrow> IsExpired v) \<and>
         (''cvv doesn't match'' \<in> set (Errors v) \<longleftrightarrow> ValidCVV v) \<and>
         (''card number is not valid'' \<in> set (Errors v) \<longleftrightarrow> ValidCardNumber v) \<and>
         set (Errors v) \<subseteq>
           {monthMessage (ExpiryMonth c), yearMessage (ExpiryYear c), ''creditcard is expired'',
            ''cvv doesn't match'', ''card number is not valid'',
            ''unknown creditcard type'',
            ''given card type doesn't match determined card type''}"
proof -
  from assms obtain ct err where d: "determineCardType c = Inr (ct, err)"
    by (rule Validate_cases)
  note e = determineCardType_error_cases [OF d]
  show ?thesis
  proof (cases "Type c = []")
    case True
    from Validate_empty_Type [OF True d, of now] assms e show ?thesis
      by (auto simp: set_expiryErrors)
  next
    case False
    from Validate_given_Type [OF False d, of now] assms e show ?thesis
      by (auto simp: set_expiryErrors)
  qed
qed

text \<open>
  The claim as stated fails on the example of the package's README, a Dankort number
  with the \<^verbatim>\<open>Type\<close> Something: the only entry of the error list is the message of the
  type mismatch, which is none of the five messages and not the classifier's text.
\<close>

theorem errors_beyond_classifier_text:
  "Validate \<lparr>tYear = 2019, tMonth = 1, tDay = 1, tNanos = 0\<rparr>
     \<lparr>Type = ''Something'', Number = ''5019717010103742'', ExpiryMonth = 11,
      ExpiryYear = 2019, CVV = ''1234''\<rparr>
   = Inr \<lparr>Card = \<lparr>Type = ''Something'', Number = ''5019717010103742'', ExpiryMonth = 11,
                   ExpiryYear = 2019, CVV = ''1234''\<rparr>,
          ValidCardNumber = False, ValidExpiryMonth = True, ValidExpiryYear = True,
          ValidCVV = False, IsExpired = False,
          Errors = [''given card type doesn't match determined card type'']\<rparr> \<and>
   ''given card type doesn't match determined card type'' \<notin>
     {monthMessage 11, yearMessage 2019, ''creditcard is expired'', ''cvv doesn't match'',
      ''card number is not valid'', ''unknown creditcard type''}"
  by code_simp

text \<open>A card of the package's test with month 111 and year 1899.\<close>

theorem errors_reflect_flags_witness:
  "\<exists>v. Validate \<lparr>tYear = 2019, tMonth = 1, tDay = 1, tNanos = 0\<rparr>
          \<lparr>Type = ''Something'', Number = ''5019717010103742'', ExpiryMonth = 111,
           ExpiryYear = 1899, CVV = ''123''\<rparr> = Inr v \<and>
       \<not> ValidExpiryMonth v \<and> monthMessage 111 \<in> set (Errors v) \<and>
       \<not> ValidExpiryYear v \<and> yearMessage 1899 \<in> set (Errors v) \<and>
       IsExpired v \<and> ''creditcard is expired'' \<in> set (Errors v) \<and>
       ValidCVV v \<and> ''cvv doesn't match'' \<in> set (Errors v) \<and>
       \<not> ValidCardNumber v \<and> ''card number is not valid'' \<notin> set (Errors v)"
proof -
  have e: "Validate \<lparr>tYear = 2019, tMonth = 1, tDay = 1, tNanos = 0\<rparr>
          \<lparr>Type = ''Something'', Number = ''5019717010103742'', ExpiryMonth = 111,
           ExpiryYear = 1899, CVV = ''123''\<rparr>
     = Inr \<lparr>Card = \<lparr>Type = ''Something'', Number = ''5019717010103742'', ExpiryMonth = 111,
                     ExpiryYear = 1899, CVV = ''123''\<rparr>,
            ValidCardNumber = False, ValidExpiryMonth = False, ValidExpiryYear = False,
            ValidCVV = True, IsExpired = True,
            Errors = [monthMessage 111, yearMessage 1899, ''creditcard is expired'',
                      ''cvv doesn't match'',
                      ''given card type doesn't match determined card type'']\<rparr>"
    by code_simp
  from errors_reflect_flags [OF e] show ?thesis
    by (simp add: e)
qed

section \<open>A prefix that does not parse\<close>

text \<open>What \<^verbatim>\<open>Atoi\<close> and the \<^verbatim>\<open>switch\<close> do on such a number.\<close>

lemma isDigitByte_4: "isDigitByte (CHR ''4'')"
  by (simp add: isDigitByte_def)

lemma Atoi_4_nondigit:
  "\<not> isDigitByte b \<Longrightarrow> Atoi (CHR ''4'' # b # s) = (0, Some ErrSyntax)"
  by (simp add: Atoi_def isDigitByte_4)

lemma Atoi_4: "Atoi ''4'' = (4, None)"
  by (simp add: Atoi_def isDigitByte_def digitVal_def)

lemma take3_not_0604: "take 3 s \<noteq> ''0604''"
proof
  assume "take 3 s = ''0604''"
  then have "length (take 3 s) = length ''0604''" by (rule arg_cong)
  then show False by simp
qed

lemma cardTypeSwitch_Visa:
  "3 \<le> length number \<Longrightarrow>
     cardTypeSwitch number (length number) [4, 0, 0, 0, 0, 0] = Inr (Visa, None)"
  by (simp add: cardTypeSwitch_def at_def sliceTo_def take3_not_0604)

text \<open>
  C10. For a number of at least 3 bytes whose first byte is \<^verbatim>\<open>4\<close> and whose second
  byte is not a digit, every prefix of 2 to 6 bytes fails the conversion and is stored as
  0, no earlier rule matches, and classification succeeds with Visa through the 1-digit
  prefix 4.
\<close>

theorem unparsable_prefix_is_zero_and_Visa:
  assumes "3 \<le> length (Number c)"
    and "Number c ! 0 = CHR ''4''"
    and "\<not> isDigitByte (Number c ! 1)"
  shows "(\<forall>n\<in>{2..6}. n \<le> length (Number c) \<longrightarrow>
            Atoi (take n (Number c)) = (0, Some ErrSyntax)) \<and>
         fillDigits (Number c) = [4, 0, 0, 0, 0, 0] \<and>
         determineCardType c = Inr (Visa, None)"
proof -
  from assms(1) obtain a b r where num: "Number c = a # b # r"
    by (cases "Number c"; cases "tl (Number c)") auto
  from assms(2,3) num have a: "a = CHR ''4''" and b: "\<not> isDigitByte b"
    by simp_all
  have pre: "Atoi (take n (Number c)) = (0, Some ErrSyntax)" if "2 \<le> n" for n
  proof -
    from that obtain k where "n = Suc (Suc k)"
      by (metis Suc_le_D numeral_2_eq_2 Suc_le_mono)
    then show ?thesis
      by (simp add: num a Atoi_4_nondigit [OF b])
  qed
  have p1: "(if 0 < length (Number c) then fst (Atoi (take 1 (Number c))) else 0) = 4"
    by (simp add: num a Atoi_4)
  have p2: "(if 1 < length (Number c) then fst (Atoi (take 2 (Number c))) else 0) = 0"
    and p3: "(if 2 < length (Number c) then fst (Atoi (take 3 (Number c))) else 0) = 0"
    and p4: "(if 3 < length (Number c) then fst (Atoi (take 4 (Number c))) else 0) = 0"
    and p5: "(if 4 < length (Number c) then fst (Atoi (take 5 (Number c))) else 0) = 0"
    and p6: "(if 5 < length (Number c) then fst (Atoi (take 6 (Number c))) else 0) = 0"
    using pre [of 2] pre [of 3] pre [of 4] pre [of 5] pre [of 6] by simp_all
  have fill: "fillDigits (Number c) = [4, 0, 0, 0, 0, 0]"
    by (simp only: fillDigits_entries p1 p2 p3 p4 p5 p6)
  have "determineCardType c = Inr (Visa, None)"
    unfolding determineCardType_def Let_def fill
    by (rule cardTypeSwitch_Visa [OF assms(1)])
  with pre fill show ?thesis
    by simp
qed

text \<open>The number \<^verbatim>\<open>4x1\<close>.\<close>

theorem unparsable_prefix_is_zero_and_Visa_witness:
  "Atoi ''4x'' = (0, Some ErrSyntax) \<and> Atoi ''4x1'' = (0, Some ErrSyntax) \<and>
   fillDigits ''4x1'' = [4, 0, 0, 0, 0, 0] \<and>
   determineCardType
     \<lparr>Type = '''', Number = ''4x1'', ExpiryMonth = 11, ExpiryYear = 2020, CVV = ''123''\<rparr>
   = Inr (Visa, None)"
proof -
  have h: "3 \<le> length ''4x1''" "''4x1'' ! 0 = CHR ''4''" "\<not> isDigitByte (''4x1'' ! 1)"
    by (simp_all add: isDigitByte_def)
  from unparsable_prefix_is_zero_and_Visa
         [of "\<lparr>Type = '''', Number = ''4x1'', ExpiryMonth = 11, ExpiryYear = 2020, CVV = ''123''\<rparr>"]
       h
  have "(\<forall>n\<in>{2..6}. n \<le> length ''4x1'' \<longrightarrow> Atoi (take n ''4x1'') = (0, Some ErrSyntax)) \<and>
        fillDigits ''4x1'' = [4, 0, 0, 0, 0, 0] \<and>
        determineCardType
          \<lparr>Type = '''', Number = ''4x1'', ExpiryMonth = 11, ExpiryYear = 2020, CVV = ''123''\<rparr>
        = Inr (Visa, None)"
    by simp
  then have q: "\<forall>n\<in>{2..6}. n \<le> length ''4x1'' \<longrightarrow> Atoi (take n ''4x1'') = (0, Some ErrSyntax)"
    and r: "fillDigits ''4x1'' = [4, 0, 0, 0, 0, 0]"
      "determineCardType
          \<lparr>Type = '''', Number = ''4x1'', ExpiryMonth = 11, ExpiryYear = 2020, CVV = ''123''\<rparr>
        = Inr (Visa, None)"
    by blast+
  from bspec [OF q, of 2] bspec [OF q, of 3] r show ?thesis
    by simp
qed

section \<open>The Luhn checksum against the specification\<close>

text \<open>
  A byte that is a digit converts to its value, and the loop computes the sum of the
  specification: the flag \<^verbatim>\<open>alternate\<close> is false at the rightmost digit and flips at
  every step.
\<close>

lemma Atoi_digit_byte:
  assumes "isDigitByte ch"
  shows "fst (Atoi (byteToString ch)) = digitVal ch"
proof -
  from assms have s: "byteToString ch = [ch]"
    by (simp add: byteToString_def isDigitByte_def)
  from assms have n: "ch \<noteq> CHR ''-''" "ch \<noteq> CHR ''+''"
    by (auto simp: isDigitByte_def)
  show ?thesis
    unfolding s by (simp add: Atoi_def assms n)
qed

lemma luhnLoop_luhnSumAlt:
  assumes "\<forall>ch\<in>set num. isDigitByte ch"
  shows "i \<le> length num \<Longrightarrow>
           luhnLoop num i alternate acc =
             acc + luhnSumAlt alternate (rev (map digitVal (take i num)))"
proof (induction i arbitrary: alternate acc)
  case 0
  then show ?case by simp
next
  case (Suc i)
  then have i: "i < length num" by simp
  with assms have d: "fst (Atoi (byteToString (num ! i))) = digitVal (num ! i)"
    by (simp add: Atoi_digit_byte)
  from i have t: "take (Suc i) num = take i num @ [num ! i]"
    by (rule take_Suc_conv_app_nth)
  from Suc.IH [of "\<not> alternate"] i show ?case
    by (simp add: d t luhnDouble_def Let_def mult.commute)
qed

lemma luhnSumAlt_False: "luhnSumAlt False ds = luhnSumFromRight ds"
  by (induction ds rule: luhnSumFromRight.induct) simp_all

text \<open>
  C7. For every number of 13 to 19 digits \<^verbatim>\<open>validateLuhn\<close> returns true exactly when
  the sum of the specification (every second digit from the right doubled, a doubled
  digit above 9 replaced by itself modulo 10, plus 1) is a multiple of 10; and for every
  number whose length is outside 13 to 19, such as \<^verbatim>\<open>0000000000\<close>, it returns false.
\<close>

theorem validateLuhn_refines_spec:
  "(length (Number c) < 13 \<or> 19 < length (Number c) \<longrightarrow> \<not> validateLuhn c) \<and>
   (13 \<le> length (Number c) \<and> length (Number c) \<le> 19 \<and>
      (\<forall>ch\<in>set (Number c). isDigitByte ch) \<longrightarrow>
    (validateLuhn c \<longleftrightarrow> luhnSpec (Number c)))"
proof (intro conjI impI)
  assume "length (Number c) < 13 \<or> 19 < length (Number c)"
  then show "\<not> validateLuhn c"
    by (auto simp: validateLuhn_def)
next
  assume a: "13 \<le> length (Number c) \<and> length (Number c) \<le> 19 \<and>
      (\<forall>ch\<in>set (Number c). isDigitByte ch)"
  then have "luhnLoop (Number c) (length (Number c)) False 0 =
               luhnSumFromRight (rev (map digitVal (Number c)))"
    by (simp add: luhnLoop_luhnSumAlt luhnSumAlt_False)
  with a show "validateLuhn c \<longleftrightarrow> luhnSpec (Number c)"
    by (simp add: validateLuhn_def luhnSpec_def dvd_eq_mod_eq_0)
qed

text \<open>
  The number of 10 zeros of the package's test, the Dankort number of the test, which
  passes, and the same number with its last digit changed, which does not.
\<close>

theorem validateLuhn_refines_spec_witness:
  "\<not> validateLuhn \<lparr>Type = '''', Number = ''0000000000'', ExpiryMonth = 11, ExpiryYear = 2020,
                     CVV = ''1234''\<rparr> \<and>
   luhnSpec ''5019717010103742'' \<and>
   validateLuhn \<lparr>Type = '''', Number = ''5019717010103742'', ExpiryMonth = 11,
                 ExpiryYear = 2020, CVV = ''1234''\<rparr> \<and>
   \<not> luhnSpec ''5019717010103743'' \<and>
   \<not> validateLuhn \<lparr>Type = '''', Number = ''5019717010103743'', ExpiryMonth = 11,
                   ExpiryYear = 2020, CVV = ''1234''\<rparr>"
proof -
  have s: "luhnSpec ''5019717010103742''" "\<not> luhnSpec ''5019717010103743''"
    by code_simp+
  have h1: "length ''0000000000'' < 13"
    by simp
  have h2: "13 \<le> length ''5019717010103742'' \<and> length ''5019717010103742'' \<le> 19 \<and>
            (\<forall>ch\<in>set ''5019717010103742''. isDigitByte ch)"
    by (simp add: isDigitByte_def)
  have h3: "13 \<le> length ''5019717010103743'' \<and> length ''5019717010103743'' \<le> 19 \<and>
            (\<forall>ch\<in>set ''5019717010103743''. isDigitByte ch)"
    by (simp add: isDigitByte_def)
  from validateLuhn_refines_spec
         [of "\<lparr>Type = '''', Number = ''0000000000'', ExpiryMonth = 11, ExpiryYear = 2020,
               CVV = ''1234''\<rparr>"]
       validateLuhn_refines_spec
         [of "\<lparr>Type = '''', Number = ''5019717010103742'', ExpiryMonth = 11,
               ExpiryYear = 2020, CVV = ''1234''\<rparr>"]
       validateLuhn_refines_spec
         [of "\<lparr>Type = '''', Number = ''5019717010103743'', ExpiryMonth = 11,
               ExpiryYear = 2020, CVV = ''1234''\<rparr>"]
       s h1 h2 h3
  show ?thesis
    by simp
qed

section \<open>Expiry\<close>

text \<open>
  \<^verbatim>\<open>Sprintf\<close> prints a number as the digits that \<^verbatim>\<open>time.Parse\<close> reads back. A
  year from 1900 to 2200 has four digits, which the layout element \<^verbatim>\<open>2006\<close> accepts.
  The month is printed with \<^verbatim>\<open>%d\<close>, without a leading zero, and the layout element
  \<^verbatim>\<open>01\<close> insists on two digits: the date of a month from 1 to 9 does not parse, and
  the date of a month from 10 to 12 does.
\<close>

lemma digit_char:
  assumes "k < 10"
  shows "isDigitByte (''0123456789'' ! k)" and "digitVal (''0123456789'' ! k) = int k"
proof -
  from assms have "k \<in> {0, 1, 2, 3, 4, 5, 6, 7, 8, 9}" by auto
  then show "isDigitByte (''0123456789'' ! k)" and "digitVal (''0123456789'' ! k) = int k"
    by (auto simp: isDigitByte_def digitVal_def)
qed

lemma atoiLoop_append:
  "atoiLoop (xs @ ys) acc = (case atoiLoop xs acc of None \<Rightarrow> None | Some v \<Rightarrow> atoiLoop ys v)"
  by (induction xs arbitrary: acc) simp_all

lemma atoiLoop_digitsNat: "atoiLoop (digitsNat n) 0 = Some (int n)"
proof (induction n rule: digitsNat.induct)
  case (1 n)
  show ?case
  proof (cases "n < 10")
    case True
    then show ?thesis
      by (simp add: digitsNat.simps [of n] digit_char)
  next
    case False
    have m: "n mod 10 < 10" by simp
    have e: "int (n div 10) * 10 + int (n mod 10) = int n"
      by presburger
    from False "1.IH" show ?thesis
      by (simp add: digitsNat.simps [of n] atoiLoop_append digit_char [OF m] e)
  qed
qed

lemma digitsNat_digits: "\<forall>ch\<in>set (digitsNat n). isDigitByte ch"
proof (induction n rule: digitsNat.induct)
  case (1 n)
  show ?case
  proof (cases "n < 10")
    case True
    then show ?thesis
      by (simp add: digitsNat.simps [of n] digit_char)
  next
    case False
    have m: "n mod 10 < 10" by simp
    from False "1.IH" show ?thesis
      by (simp add: digitsNat.simps [of n] digit_char [OF m])
  qed
qed

lemma length_digitsNat_4:
  assumes "1000 \<le> n" and "n < 10000"
  shows "length (digitsNat n) = 4"
proof -
  from assms have "\<not> n < 10" "\<not> n div 10 < 10" "\<not> n div 10 div 10 < 10" "n div 10 div 10 div 10 < 10"
    by simp_all
  then show ?thesis
    by (simp add: digitsNat.simps [of n] digitsNat.simps [of "n div 10"]
        digitsNat.simps [of "n div 10 div 10"] digitsNat.simps [of "n div 10 div 10 div 10"])
qed

lemma getLongYear_fmtInt:
  assumes "1900 \<le> y" and "y \<le> 2200"
  shows "getLongYear (fmtInt y @ rest) = Some (y, rest)"
proof -
  from assms have f: "fmtInt y = digitsNat (nat y)"
    by (simp add: fmtInt_def)
  from assms have l: "length (digitsNat (nat y)) = 4"
    by (intro length_digitsNat_4) simp_all
  then have "digitsNat (nat y) \<noteq> []" by auto
  then have "isDigitByte (digitsNat (nat y) ! 0)"
    using digitsNat_digits [of "nat y"] by (cases "digitsNat (nat y)") simp_all
  then have d: "isDigitAt (digitsNat (nat y) @ rest) 0"
    using l by (simp add: isDigitAt_def nth_append)
  from assms have a: "atoiLoop (digitsNat (nat y)) 0 = Some y"
    by (simp add: atoiLoop_digitsNat)
  show ?thesis
    unfolding f getLongYear_def using l d a by simp
qed

lemma parseDate_single_digit_month:
  assumes "1900 \<le> y" and "y \<le> 2200" and "1 \<le> m" and "m \<le> 9"
  shows "parseDate (fmtInt y @ ''-'' @ fmtInt m @ ''-01'') = None"
proof -
  from assms(3,4) have m: "digitsNat (nat m) = [''0123456789'' ! nat m]" and f: "fmtInt m = digitsNat (nat m)"
    by (simp_all add: digitsNat.simps [of "nat m"] fmtInt_def)
  have "getnum (fmtInt m @ ''-01'') True = None"
    by (simp add: f m getnum_def isDigitAt_def isDigitByte_def)
  then show ?thesis
    by (simp add: parseDate_def getLongYear_fmtInt [OF assms(1,2)] skipDash_def)
qed

lemma parseDate_two_digit_month:
  assumes "1900 \<le> y" and "y \<le> 2200" and "10 \<le> m" and "m \<le> 12"
  shows "parseDate (fmtInt y @ ''-'' @ fmtInt m @ ''-01'') =
           Some \<lparr>tYear = y, tMonth = m, tDay = 1, tNanos = 0\<rparr>"
proof -
  have f: "fmtInt 10 = ''10''" "fmtInt 11 = ''11''" "fmtInt 12 = ''12''"
    by code_simp+
  from assms(3,4) have "m = 10 \<or> m = 11 \<or> m = 12" by auto
  then have g: "getnum (fmtInt m @ ''-01'') True = Some (m, ''-01'')"
    by (auto simp: f getnum_def isDigitAt_def isDigitByte_def digitVal_def)
  have d: "getnum ''01'' True = Some (1, [])"
    by (simp add: getnum_def isDigitAt_def isDigitByte_def digitVal_def)
  from assms(3,4) have n: "\<not> daysIn m y < 1"
    by (simp add: daysIn_def)
  from assms(3,4) show ?thesis
    by (simp add: parseDate_def getLongYear_fmtInt [OF assms(1,2)] skipDash_def g d n)
qed

text \<open>
  \<^verbatim>\<open>isExpired\<close> in closed form: with an invalid month or year the card is expired; with
  a month from 10 to 12 it is expired when the first of that month is before now; with a
  month from 1 to 9 the comparison is made with the zero \<^verbatim>\<open>Time\<close> instead.
\<close>

lemma isExpired_eq:
  "isExpired now c =
     (if \<not> validExpiryMonth c \<or> \<not> validExpiryYear c then True
      else if ExpiryMonth c < 10 then Before zeroTime now
      else Before (firstOfMonth c) now)"
proof (cases "validExpiryMonth c \<and> validExpiryYear c")
  case False
  then show ?thesis by (auto simp: isExpired_def)
next
  case True
  then have r: "1900 \<le> ExpiryYear c" "ExpiryYear c \<le> 2200" "1 \<le> ExpiryMonth c" "ExpiryMonth c \<le> 12"
    by (auto simp: validExpiryMonth_def validExpiryYear_def split: if_splits)
  show ?thesis
  proof (cases "ExpiryMonth c < 10")
    case True
    with r have "parseDate (fmtInt (ExpiryYear c) @ ''-'' @ fmtInt (ExpiryMonth c) @ ''-01'') = None"
      by (intro parseDate_single_digit_month) simp_all
    with True \<open>validExpiryMonth c \<and> validExpiryYear c\<close> show ?thesis
      by (simp add: isExpired_def)
  next
    case False
    with r have "parseDate (fmtInt (ExpiryYear c) @ ''-'' @ fmtInt (ExpiryMonth c) @ ''-01'') =
          Some \<lparr>tYear = ExpiryYear c, tMonth = ExpiryMonth c, tDay = 1, tNanos = 0\<rparr>"
      by (intro parseDate_two_digit_month) simp_all
    with False \<open>validExpiryMonth c \<and> validExpiryYear c\<close> show ?thesis
      by (simp add: isExpired_def firstOfMonth_def)
  qed
qed

lemma Validate_expiry_flags:
  assumes "Validate now c = Inr v"
  shows "ValidExpiryMonth v = validExpiryMonth c" and "ValidExpiryYear v = validExpiryYear c"
    and "IsExpired v = isExpired now c"
proof -
  from assms obtain ct err where d: "determineCardType c = Inr (ct, err)"
    by (rule Validate_cases)
  have "ValidExpiryMonth v = validExpiryMonth c \<and> ValidExpiryYear v = validExpiryYear c \<and>
        IsExpired v = isExpired now c"
  proof (cases "Type c = []")
    case True
    from Validate_empty_Type [OF True d, of now] assms show ?thesis by auto
  next
    case False
    from Validate_given_Type [OF False d, of now] assms show ?thesis by auto
  qed
  then show "ValidExpiryMonth v = validExpiryMonth c" and "ValidExpiryYear v = validExpiryYear c"
    and "IsExpired v = isExpired now c"
    by simp_all
qed

text \<open>
  C3. The claim: with a valid month and year, \<^verbatim>\<open>IsExpired\<close> is true exactly when the
  first-of-month date of the card is strictly before the current moment. For a month from
  1 to 9 the code does something else: the date string does not parse, the error is
  dropped, and the flag says whether the zero \<^verbatim>\<open>Time\<close> is before now, which holds for
  every clock reading after the year 1.
\<close>

theorem IsExpired_single_digit_month:
  assumes "1 \<le> ExpiryMonth c" and "ExpiryMonth c \<le> 9"
    and "1900 \<le> ExpiryYear c" and "ExpiryYear c \<le> 2200"
    and "Validate now c = Inr v"
  shows "IsExpired v = Before zeroTime now"
  using assms(1-4)
  by (simp add: Validate_expiry_flags(3) [OF assms(5)] isExpired_eq validExpiryMonth_def
      validExpiryYear_def)

text \<open>
  A card that expires in May 2200, validated in November 2026: it is reported expired,
  and the first of May 2200 is not before that moment.
\<close>

theorem IsExpired_single_digit_month_witness:
  "\<exists>v. Validate \<lparr>tYear = 2026, tMonth = 11, tDay = 3, tNanos = 0\<rparr>
          \<lparr>Type = ''Visa'', Number = ''4111111111111111'', ExpiryMonth = 5, ExpiryYear = 2200,
           CVV = ''1234''\<rparr> = Inr v \<and>
       IsExpired v \<and>
       \<not> Before (firstOfMonth \<lparr>Type = ''Visa'', Number = ''4111111111111111'', ExpiryMonth = 5,
                                ExpiryYear = 2200, CVV = ''1234''\<rparr>)
                 \<lparr>tYear = 2026, tMonth = 11, tDay = 3, tNanos = 0\<rparr>"
proof -
  have e: "Validate \<lparr>tYear = 2026, tMonth = 11, tDay = 3, tNanos = 0\<rparr>
          \<lparr>Type = ''Visa'', Number = ''4111111111111111'', ExpiryMonth = 5, ExpiryYear = 2200,
           CVV = ''1234''\<rparr>
     = Inr \<lparr>Card = \<lparr>Type = ''Visa'', Number = ''4111111111111111'', ExpiryMonth = 5,
                     ExpiryYear = 2200, CVV = ''1234''\<rparr>,
            ValidCardNumber = True, ValidExpiryMonth = True, ValidExpiryYear = True,
            ValidCVV = False, IsExpired = True,
            Errors = [''creditcard is expired'', ''card number is not valid'']\<rparr>"
    by code_simp
  from IsExpired_single_digit_month [OF _ _ _ _ e] show ?thesis
    by (simp add: e Before_def zeroTime_def firstOfMonth_def)
qed

section \<open>The cards of the test\<close>

text \<open>
  C4. The claim: for the number \<^verbatim>\<open>5019717010103742\<close> with month 11, year 2019, CVV
  \<^verbatim>\<open>1234\<close> and no network, \<^verbatim>\<open>Validate\<close> writes back the network Dankort; with the
  year 2020 instead, the error list is empty. The first half holds. The second does not,
  whatever the clock shows: the number passes the Luhn check, \<^verbatim>\<open>ValidCardNumber\<close> is
  true, and \<^verbatim>\<open>Validate\<close> appends the card-number message when that flag is true.
\<close>

theorem test_card_error_list_not_empty:
  "(\<exists>v. Validate now
          \<lparr>Type = '''', Number = ''5019717010103742'', ExpiryMonth = 11, ExpiryYear = 2019,
           CVV = ''1234''\<rparr> = Inr v \<and>
        Type (Card v) = ''Dankort'') \<and>
   (\<exists>v. Validate now
          \<lparr>Type = '''', Number = ''5019717010103742'', ExpiryMonth = 11, ExpiryYear = 2020,
           CVV = ''1234''\<rparr> = Inr v \<and>
        Type (Card v) = ''Dankort'' \<and> ValidCardNumber v \<and>
        ''card number is not valid'' \<in> set (Errors v))"
proof -
  have t: "Type \<lparr>Type = '''', Number = ''5019717010103742'', ExpiryMonth = 11, ExpiryYear = y,
                  CVV = ''1234''\<rparr> = []" for y
    by simp
  have d: "determineCardType
     \<lparr>Type = '''', Number = ''5019717010103742'', ExpiryMonth = 11, ExpiryYear = y,
      CVV = ''1234''\<rparr>
     = Inr (Dankort, None)" for y
    by code_simp
  have l: "validateLuhn \<lparr>Type = '''', Number = ''5019717010103742'', ExpiryMonth = 11,
                     ExpiryYear = y, CVV = ''1234''\<rparr>" for y
    by code_simp
  have n: "name Dankort = ''Dankort''"
    by code_simp
  show ?thesis
    by (simp add: Validate_empty_Type [OF t d] l n)
qed

section \<open>Where the classifier panics\<close>

text \<open>
  The slice of the Maestro case is the only source of a panic: the classifier panics on
  numbers of fewer than 3 bytes only, and \<^verbatim>\<open>Validate\<close> returns a result for every card
  whose number has at least 3 bytes.
\<close>

lemma if_Inr_eq_Inl:
  "((if P then Inr a else R) = Inl p) = (\<not> P \<and> R = Inl p)"
  by simp

lemma case_sum_Inl:
  "((case x of Inl q \<Rightarrow> Inl q | Inr s \<Rightarrow> f s) = Inl p) =
     (x = Inl p \<or> (\<exists>s. x = Inr s \<and> f s = Inl p))"
  by (cases x) simp_all

lemma cardTypeSwitch_panic:
  assumes "cardTypeSwitch number ccLen ccDigits = Inl p"
  shows "length number < 3"
proof -
  from assms have "sliceTo number 3 = Inl p \<or>
      (Inr (Unknown, Some ''unknown creditcard type'') :: panic + (cardType \<times> error)) = Inl p"
    unfolding cardTypeSwitch_def if_Inr_eq_Inl case_sum_Inl
    by (elim conjE exE disjE) simp_all
  then show ?thesis
    by (simp add: sliceTo_def split: if_splits)
qed

lemma Validate_returns:
  assumes "3 \<le> length (Number c)"
  shows "\<exists>v. Validate now c = Inr v"
proof (cases "determineCardType c")
  case (Inl p)
  then have "length (Number c) < 3"
    unfolding determineCardType_def Let_def by (rule cardTypeSwitch_panic)
  with assms show ?thesis by simp
next
  case (Inr r)
  obtain ct err where r: "r = (ct, err)" by (cases r)
  show ?thesis
  proof (cases "Type c = []")
    case True
    from Validate_empty_Type [OF True Inr [unfolded r], of now] show ?thesis by simp
  next
    case False
    from Validate_given_Type [OF False Inr [unfolded r], of now] show ?thesis by simp
  qed
qed

end
